theory Spec2Isabelle
  imports Main "HOL-Library.Word"
begin

section \<open>The Win32 message listener (listener.cpp)\<close>

text \<open>
  The listener owns a hidden top-level window. Its window procedure \<open>WndProc\<close> receives
  the emulator's registered window messages and \<open>WM_COPYDATA\<close> payloads, keeps the
  identifier-to-label table \<open>g_idToName\<close>, posts requests back to the emulator and hands
  events to the JavaScript callback. The model follows the 64-bit Windows ABI: \<open>UINT\<close> and
  \<open>DWORD\<close> are 32 bits wide, \<open>WPARAM\<close>, \<open>LPARAM\<close>, \<open>ULONG_PTR\<close> and window handles
  are 64 bits wide, and integers are stored little-endian.
\<close>

subsection \<open>Machine types and constants\<close>

type_synonym UINT = "32 word"
type_synonym DWORD = "32 word"
type_synonym WPARAM = "64 word"
type_synonym LPARAM = "64 word"
type_synonym HWND = "64 word"
type_synonym ULONG_PTR = "64 word"

definition WM_COPYDATA :: UINT where
  "WM_COPYDATA = 0x004A"

definition HWND_BROADCAST :: HWND where
  "HWND_BROADCAST = 0xFFFF"

definition NUL :: char where
  "NUL = CHR 0x00"

text \<open>
  \<open>COPYDATASTRUCT\<close>: the tag, the declared byte count and the memory that \<open>lpData\<close>
  points to, as the list of bytes that can be read from that address onwards.
\<close>

record COPYDATASTRUCT =
  dwData :: ULONG_PTR
  cbData :: DWORD
  lpData :: "char list"

text \<open>
  One inbound window message. \<open>copydata\<close> is the structure \<open>lParam\<close> points to; the
  window procedure looks at it only when the message is \<open>WM_COPYDATA\<close>.
\<close>

record MSG =
  hwnd :: HWND
  message :: UINT
  wParam :: WPARAM
  lParam :: LPARAM
  copydata :: COPYDATASTRUCT

subsection \<open>What the window procedure does to the outside\<close>

text \<open>
  The three objects handed to the JavaScript callback: \<open>{key, value}\<close> from \<open>pushToJS\<close>,
  \<open>{key, label}\<close> from \<open>pushLabelToJS\<close> and \<open>{key, text}\<close> from \<open>pushStringToJS\<close>.
\<close>

datatype event =
  Numeric_update string int
  | Label_update string string
  | Text_update string string

text \<open>
  The session boundary events are numeric objects on two reserved keys.
\<close>

abbreviation session_started :: event where
  "session_started \<equiv> Numeric_update ''__MAME_START__'' 1"

abbreviation session_stopped :: event where
  "session_stopped \<equiv> Numeric_update ''__MAME_STOP__'' 0"

datatype effect =
  BlockingCall event
  | PostMessage HWND UINT WPARAM LPARAM

text \<open>
  What ends a call of the window procedure other than a return: the two exceptions of
  \<open>std::stoi\<close>, which nothing in listener.cpp catches, and a read beyond the memory of
  the payload.
\<close>

datatype failure =
  Stoi_invalid_argument
  | Stoi_out_of_range
  | Read_past_buffer

datatype LRESULT =
  Returns "64 word"
  | DefWindowProc

subsection \<open>Globals\<close>

record globals =
  WM_MAME_START :: UINT
  WM_MAME_STOP :: UINT
  WM_MAME_REGISTER :: UINT
  WM_MAME_UPDATE :: UINT
  WM_MAME_GET_ID :: UINT
  WM_MAME_UNREG :: UINT
  WM_MAME_REG :: UINT
  g_mameHWND :: HWND
  g_idToName :: "UINT \<rightharpoonup> string"
  g_currentRomName :: string
  g_tsfn :: bool

text \<open>
  \<open>g_tsfn\<close> is true when the thread-safe function holds a callback. \<open>StartListener\<close>
  binds it before it launches the thread that runs the window procedure.
\<close>

definition pushToJS :: "globals \<Rightarrow> string \<Rightarrow> int \<Rightarrow> effect list" where
  "pushToJS g key v = (if \<not> g_tsfn g then [] else [BlockingCall (Numeric_update key v)])"

definition pushLabelToJS :: "globals \<Rightarrow> string \<Rightarrow> string \<Rightarrow> effect list" where
  "pushLabelToJS g key label =
     (if \<not> g_tsfn g then [] else [BlockingCall (Label_update key label)])"

definition pushStringToJS :: "globals \<Rightarrow> string \<Rightarrow> string \<Rightarrow> effect list" where
  "pushStringToJS g key s = (if \<not> g_tsfn g then [] else [BlockingCall (Text_update key s)])"

subsection \<open>Library functions the window procedure calls\<close>

text \<open>\<open>std::to_string\<close> on an unsigned value: its decimal digits, no sign, no padding.\<close>

definition digit_char :: "nat \<Rightarrow> char" where
  "digit_char d = char_of (48 + d)"

fun dec_digits :: "nat \<Rightarrow> string" where
  "dec_digits n =
     (if n < 10 then [digit_char n] else dec_digits (n div 10) @ [digit_char (n mod 10)])"

declare dec_digits.simps [simp del]

definition to_string :: "UINT \<Rightarrow> string" where
  "to_string i = dec_digits (unat i)"

definition id_key :: "UINT \<Rightarrow> string" where
  "id_key i = ''id_'' @ to_string i"

text \<open>
  \<open>strnlen s maxLen\<close>: the number of bytes before the first NUL among the first
  \<open>maxLen\<close> bytes, or \<open>maxLen\<close> when there is none. It reads no byte after the
  terminator and none after the bound; running off the memory before either is a
  read past the buffer.
\<close>

definition strnlen :: "char list \<Rightarrow> nat \<Rightarrow> failure + nat" where
  "strnlen s maxLen =
     (let w = take maxLen s;
          l = length (takeWhile (\<lambda>c. c \<noteq> NUL) w)
      in if l < length w \<or> length w = maxLen then Inr l else Inl Read_past_buffer)"

text \<open>\<open>std::string::find\<close> of one character: the first position, or \<open>npos\<close> (None).\<close>

definition find_char :: "string \<Rightarrow> char \<Rightarrow> nat option" where
  "find_char s c =
     (let k = length (takeWhile (\<lambda>x. x \<noteq> c) s) in if k < length s then Some k else None)"

text \<open>
  \<open>std::stoi\<close> in base 10: skips leading white space, takes an optional sign and the
  longest run of decimal digits, ignores what follows. No digit at all is
  \<open>std::invalid_argument\<close>; a value outside the range of \<open>int\<close> is \<open>std::out_of_range\<close>.
\<close>

definition isspace :: "char \<Rightarrow> bool" where
  "isspace c \<longleftrightarrow> c \<in> set [CHR 0x20, CHR 0x09, CHR 0x0A, CHR 0x0B, CHR 0x0C, CHR 0x0D]"

definition isdigit :: "char \<Rightarrow> bool" where
  "isdigit c \<longleftrightarrow> (48::nat) \<le> of_char c \<and> (of_char c :: nat) \<le> 57"

definition dec_value :: "string \<Rightarrow> nat" where
  "dec_value ds = foldl (\<lambda>acc c. 10 * acc + (of_char c - 48)) 0 ds"

definition stoi :: "string \<Rightarrow> failure + int" where
  "stoi str =
     (let s1 = dropWhile isspace str;
          neg = (case s1 of [] \<Rightarrow> False | c # r \<Rightarrow> c = CHR ''-'');
          s2 = (case s1 of [] \<Rightarrow> [] | c # r \<Rightarrow> if c = CHR ''-'' \<or> c = CHR ''+'' then r else s1);
          ds = takeWhile isdigit s2
      in if ds = [] then Inl Stoi_invalid_argument
         else (let v = (if neg then - int (dec_value ds) else int (dec_value ds))
               in if v < - 2147483648 \<or> 2147483647 < v then Inl Stoi_out_of_range
                  else Inr v))"

subsection \<open>Decoding a payload\<close>

text \<open>
  The identifier of an id+label packet: the first four bytes as a little-endian
  \<open>UINT\<close>.
\<close>

definition read_UINT :: "char list \<Rightarrow> failure + UINT" where
  "read_UINT buf =
     (case buf of
        b0 # b1 # b2 # b3 # rest \<Rightarrow>
          Inr (of_char b0 + push_bit 8 (of_char b1) + push_bit 16 (of_char b2)
               + push_bit 24 (of_char b3))
      | _ \<Rightarrow> Inl Read_past_buffer)"

text \<open>
  The id+label branch up to the construction of \<open>label\<close>: the identifier, then the
  string after it, cut at the first NUL or at \<open>cbData - sizeof(UINT)\<close>.
\<close>

definition decode_label :: "COPYDATASTRUCT \<Rightarrow> failure + (UINT \<times> string)" where
  "decode_label cds =
     (case read_UINT (lpData cds) of
        Inl e \<Rightarrow> Inl e
      | Inr i \<Rightarrow>
          (let strBuf = drop 4 (lpData cds);
               maxLen = unat (cbData cds) - 4
           in case strnlen strBuf maxLen of
                Inl e \<Rightarrow> Inl e
              | Inr len \<Rightarrow> Inr (i, take len strBuf)))"

text \<open>\<open>std::string payload(lpData, cbData)\<close> copies exactly \<open>cbData\<close> bytes.\<close>

definition read_payload :: "COPYDATASTRUCT \<Rightarrow> failure + string" where
  "read_payload cds =
     (if length (lpData cds) < unat (cbData cds) then Inl Read_past_buffer
      else Inr (take (unat (cbData cds)) (lpData cds)))"

subsection \<open>The window procedure\<close>

definition WndProc :: "globals \<Rightarrow> MSG \<Rightarrow> failure + (globals \<times> effect list \<times> LRESULT)" where
  "WndProc g m =
     (if message m = WM_COPYDATA then
        (let cds = copydata m in
         if dwData cds = 1 \<and> 5 \<le> cbData cds then
           (case decode_label cds of
              Inl e \<Rightarrow> Inl e
            | Inr (i, label) \<Rightarrow>
                if i = 0 then
                  Inr (g\<lparr>g_currentRomName := label\<rparr>,
                       pushStringToJS g ''__GAME_NAME__'' label @ pushToJS g ''__GAME_NAME__'' 0,
                       Returns 1)
                else
                  Inr (g\<lparr>g_idToName := (g_idToName g)(i \<mapsto> label)\<rparr>,
                       pushLabelToJS g (id_key i) label @ pushToJS g (id_key i) 0,
                       Returns 1))
         else if 3 < cbData cds then
           (case read_payload cds of
              Inl e \<Rightarrow> Inl e
            | Inr payload \<Rightarrow>
                (case find_char payload CHR ''='' of
                   Some eq \<Rightarrow>
                     (case stoi (drop (eq + 1) payload) of
                        Inl e \<Rightarrow> Inl e
                      | Inr v \<Rightarrow> Inr (g, pushToJS g (take eq payload) v, Returns 1))
                 | None \<Rightarrow> Inr (g, [], Returns 1)))
         else Inr (g, [], Returns 1))
      else if message m = WM_MAME_START g then
        (let g' = g\<lparr>g_mameHWND := wParam m, g_idToName := Map.empty\<rparr>;
             me = hwnd m
         in Inr (g',
                 pushToJS g' ''__MAME_START__'' 1
                 @ [PostMessage HWND_BROADCAST (WM_MAME_REG g') me 0,
                    PostMessage (g_mameHWND g') (WM_MAME_REG g') me 0,
                    PostMessage HWND_BROADCAST (WM_MAME_GET_ID g') me 0,
                    PostMessage (g_mameHWND g') (WM_MAME_GET_ID g') me 0],
                 Returns 0))
      else if message m = WM_MAME_REGISTER g then
        (let i = (ucast (lParam m) :: UINT)
         in Inr (g,
                 [PostMessage HWND_BROADCAST (WM_MAME_GET_ID g) (hwnd m) (ucast i),
                  PostMessage (g_mameHWND g) (WM_MAME_GET_ID g) (hwnd m) (ucast i)],
                 Returns 0))
      else if message m = WM_MAME_UPDATE g then
        (let i = (ucast (wParam m) :: UINT);
             val = sint (ucast (lParam m) :: 32 word);
             ask = (if i \<noteq> 0 \<and> g_idToName g i = None \<and> g_mameHWND g \<noteq> 0
                    then [PostMessage HWND_BROADCAST (WM_MAME_GET_ID g) (hwnd m) (ucast i),
                          PostMessage (g_mameHWND g) (WM_MAME_GET_ID g) (hwnd m) (ucast i)]
                    else []);
             keyStr = (if i = 0 then ''__GAME_NAME__'' else id_key i)
         in Inr (g, ask @ pushToJS g keyStr val, Returns 0))
      else if message m = WM_MAME_UNREG g then
        Inr (g\<lparr>g_idToName := (g_idToName g)((ucast (lParam m) :: UINT) := None)\<rparr>, [], Returns 0)
      else if message m = WM_MAME_STOP g then
        Inr (g, pushToJS g ''__MAME_STOP__'' 0, Returns 0)
      else Inr (g, [], DefWindowProc))"

text \<open>
  The dispatch loop of \<open>messagePump\<close> on a queue of messages: each one goes through the
  window procedure in turn. An exception or a bad read leaves the loop at the message
  that raised it, with the globals as they were before that message.
\<close>

fun pump :: "globals \<Rightarrow> MSG list \<Rightarrow> globals \<times> effect list \<times> failure option" where
  "pump g [] = (g, [], None)"
| "pump g (m # ms) =
     (case WndProc g m of
        Inl e \<Rightarrow> (g, [], Some e)
      | Inr (g', out, r) \<Rightarrow>
          (case pump g' ms of (g'', outs, e) \<Rightarrow> (g'', out @ outs, e)))"

definition events_of :: "effect list \<Rightarrow> event list" where
  "events_of effs = concat (map (\<lambda>e. case e of BlockingCall ev \<Rightarrow> [ev] | _ \<Rightarrow> []) effs)"

text \<open>
  \<open>messagePump\<close> resolves the seven message identifiers by name before it enters the
  loop, in this order. \<open>R\<close> is \<open>RegisterWindowMessageA\<close>.
\<close>

definition messagePump_resolve :: "(string \<Rightarrow> UINT) \<Rightarrow> globals \<Rightarrow> globals" where
  "messagePump_resolve R g =
     g\<lparr>WM_MAME_REG := R ''MAMEOutputRegister'',
       WM_MAME_START := R ''MAMEOutputStart'',
       WM_MAME_STOP := R ''MAMEOutputStop'',
       WM_MAME_REGISTER := R ''MAMEOutputRegister'',
       WM_MAME_UPDATE := R ''MAMEOutputUpdateState'',
       WM_MAME_GET_ID := R ''MAMEOutputGetIDString'',
       WM_MAME_UNREG := R ''MAMEOutputUnregister''\<rparr>"

text \<open>
  The contract of \<open>RegisterWindowMessageA\<close> on the six names in use: an identifier in
  the range 0xC000 to 0xFFFF for each, and different identifiers for different names.
\<close>

definition message_names :: "string list" where
  "message_names =
     [''MAMEOutputRegister'', ''MAMEOutputStart'', ''MAMEOutputStop'',
      ''MAMEOutputUpdateState'', ''MAMEOutputGetIDString'', ''MAMEOutputUnregister'']"

definition atoms_ok :: "(string \<Rightarrow> UINT) \<Rightarrow> bool" where
  "atoms_ok R \<longleftrightarrow>
     distinct (map R message_names)
     \<and> list_all (\<lambda>n. 0xC000 \<le> R n \<and> R n \<le> 0xFFFF) message_names"

definition resolved :: "(string \<Rightarrow> UINT) \<Rightarrow> globals \<Rightarrow> bool" where
  "resolved R g \<longleftrightarrow>
     WM_MAME_REG g = R ''MAMEOutputRegister''
     \<and> WM_MAME_START g = R ''MAMEOutputStart''
     \<and> WM_MAME_STOP g = R ''MAMEOutputStop''
     \<and> WM_MAME_REGISTER g = R ''MAMEOutputRegister''
     \<and> WM_MAME_UPDATE g = R ''MAMEOutputUpdateState''
     \<and> WM_MAME_GET_ID g = R ''MAMEOutputGetIDString''
     \<and> WM_MAME_UNREG g = R ''MAMEOutputUnregister''"

text \<open>
  The globals as the program starts: no source window, an empty table, no run name.
  The message identifiers are zero until \<open>messagePump\<close> resolves them.
\<close>

definition initial_globals :: "bool \<Rightarrow> globals" where
  "initial_globals tsfn =
     \<lparr>WM_MAME_START = 0, WM_MAME_STOP = 0, WM_MAME_REGISTER = 0, WM_MAME_UPDATE = 0,
      WM_MAME_GET_ID = 0, WM_MAME_UNREG = 0, WM_MAME_REG = 0,
      g_mameHWND = 0, g_idToName = Map.empty, g_currentRomName = [], g_tsfn = tsfn\<rparr>"

text \<open>A table of identifiers for concrete runs.\<close>

definition sample_atoms :: "string \<Rightarrow> UINT" where
  "sample_atoms n =
     (if n = ''MAMEOutputRegister'' then 0xC001
      else if n = ''MAMEOutputStart'' then 0xC002
      else if n = ''MAMEOutputStop'' then 0xC003
      else if n = ''MAMEOutputUpdateState'' then 0xC004
      else if n = ''MAMEOutputGetIDString'' then 0xC005
      else if n = ''MAMEOutputUnregister'' then 0xC006
      else 0)"

definition sample_globals :: globals where
  "sample_globals = messagePump_resolve sample_atoms (initial_globals True)"

subsection \<open>Runs, test messages and the predicates of the properties\<close>

definition state_after :: "globals \<Rightarrow> MSG list \<Rightarrow> globals" where
  "state_after g ms = fst (pump g ms)"

definition effects_after :: "globals \<Rightarrow> MSG list \<Rightarrow> effect list" where
  "effects_after g ms = fst (snd (pump g ms))"

definition failure_after :: "globals \<Rightarrow> MSG list \<Rightarrow> failure option" where
  "failure_after g ms = snd (snd (pump g ms))"

text \<open>
  The sender's side of an id+label packet: the identifier in four little-endian bytes,
  then the bytes of the label.
\<close>

definition encode_label_record :: "UINT \<Rightarrow> string \<Rightarrow> char list" where
  "encode_label_record i l =
     [char_of (unat i), char_of (unat (drop_bit 8 i)), char_of (unat (drop_bit 16 i)),
      char_of (unat (drop_bit 24 i))] @ l"

definition label_packet :: "UINT \<Rightarrow> string \<Rightarrow> COPYDATASTRUCT" where
  "label_packet i l =
     \<lparr>dwData = 1, cbData = of_nat (length l + 5), lpData = encode_label_record i l @ [NUL]\<rparr>"

definition text_packet :: "string \<Rightarrow> COPYDATASTRUCT" where
  "text_packet s = \<lparr>dwData = 0, cbData = of_nat (length s), lpData = s\<rparr>"

definition copydata_msg :: "HWND \<Rightarrow> COPYDATASTRUCT \<Rightarrow> MSG" where
  "copydata_msg h cds =
     \<lparr>hwnd = h, message = WM_COPYDATA, wParam = 0, lParam = 0, copydata = cds\<rparr>"

definition control_msg :: "HWND \<Rightarrow> UINT \<Rightarrow> WPARAM \<Rightarrow> LPARAM \<Rightarrow> MSG" where
  "control_msg h u w l =
     \<lparr>hwnd = h, message = u, wParam = w, lParam = l,
      copydata = \<lparr>dwData = 0, cbData = 0, lpData = []\<rparr>\<rparr>"

text \<open>The three kinds of message that change the table at identifier \<open>i\<close>.\<close>

definition is_session_start :: "globals \<Rightarrow> MSG \<Rightarrow> bool" where
  "is_session_start g m \<longleftrightarrow> message m = WM_MAME_START g"

definition is_unregister :: "globals \<Rightarrow> UINT \<Rightarrow> MSG \<Rightarrow> bool" where
  "is_unregister g i m \<longleftrightarrow> message m = WM_MAME_UNREG g \<and> ucast (lParam m) = i"

definition is_label_record :: "UINT \<Rightarrow> MSG \<Rightarrow> bool" where
  "is_label_record i m \<longleftrightarrow>
     message m = WM_COPYDATA \<and> dwData (copydata m) = 1 \<and> 5 \<le> cbData (copydata m)
     \<and> (case decode_label (copydata m) of Inl e \<Rightarrow> False | Inr (j, l) \<Rightarrow> j = i)"

text \<open>
  A message posted to \<open>HWND_BROADCAST\<close> is put in the queue of every top-level window
  of the system. The listener's hidden window has no parent, so it is one of them:
  these are the messages that come back to the window \<open>me\<close> from its own posts.
\<close>

definition own_window_receives :: "HWND \<Rightarrow> effect list \<Rightarrow> MSG list" where
  "own_window_receives me effs =
     concat (map (\<lambda>e. case e of
                         PostMessage t u w l \<Rightarrow>
                           if t = HWND_BROADCAST then [control_msg me u w l] else []
                       | BlockingCall ev \<Rightarrow> []) effs)"

text \<open>A running listener with the bindings 7 and 9 and the source window 0x20.\<close>

definition active_globals :: globals where
  "active_globals =
     sample_globals\<lparr>g_mameHWND := 0x20,
                    g_idToName := [7 \<mapsto> ''Lives'', 9 \<mapsto> ''Credits'']\<rparr>"

text \<open>Messages and a run of messages for concrete checks.\<close>

definition bonus_label :: MSG where
  "bonus_label = copydata_msg 0x10 (label_packet 12 ''Bonus'')"

definition extra_label :: MSG where
  "extra_label = copydata_msg 0x10 (label_packet 12 ''Extra'')"

definition quiet_run :: "MSG list" where
  "quiet_run =
     [control_msg 0x10 0xC004 12 5,
      copydata_msg 0x10 (label_packet 7 ''Ships''),
      control_msg 0x10 0xC003 0 0,
      control_msg 0x10 0xC006 0 7,
      copydata_msg 0x10 (text_packet ''score=1500'')]"

definition run_name_label :: MSG where
  "run_name_label = copydata_msg 0x10 (label_packet 0 ''pacman'')"

text \<open>A packet whose memory goes on after a terminator and after the declared twelve bytes.\<close>

definition padded_packet :: COPYDATASTRUCT where
  "padded_packet =
     \<lparr>dwData = 1, cbData = 12,
      lpData = encode_label_record 42 ''Pac'' @ NUL # ''XYZ!'' @ ''beyond''\<rparr>"

subsection \<open>Starting and stopping the listener\<close>

text \<open>
  The globals of the lifecycle: the run flag, whether \<open>g_msgThread\<close> holds a thread
  (\<open>joinable()\<close>), and the thread-safe function. \<open>g_tsfn\<close> starts as an empty handle,
  \<open>ThreadSafeFunction::New\<close> makes it a live function held by one thread, and
  \<open>Release\<close> gives that hold back; the handle itself stays non-empty after \<open>Release\<close>,
  since nothing in listener.cpp resets it, so \<open>if (g_tsfn)\<close> is true from the first
  start onwards.
\<close>

datatype tsfn_state =
  Tsfn_empty
  | Tsfn_live
  | Tsfn_released

record lifecycle =
  g_running :: bool
  g_msgThread_joinable :: bool
  g_tsfn_handle :: tsfn_state

definition tsfn_nonempty :: "tsfn_state \<Rightarrow> bool" where
  "tsfn_nonempty t \<longleftrightarrow> t \<noteq> Tsfn_empty"

text \<open>
  The calls a lifecycle entry point makes to the outside, in order.
  \<open>PostThreadMessage_WM_QUIT\<close> carries whether \<open>g_msgThread\<close> held a thread when its
  native handle was read; \<open>Tsfn_Release\<close> carries the state of the function it is
  called on.
\<close>

datatype lifecycle_call =
  Tsfn_New
  | Thread_start
  | PostThreadMessage_WM_QUIT bool
  | Thread_join
  | Tsfn_Release tsfn_state

datatype napi_value =
  Napi_true
  | Napi_undefined
  | Napi_null_TypeError

text \<open>\<open>StartListener\<close>; the argument says whether \<open>info[0]\<close> is a function.\<close>

definition StartListener ::
  "bool \<Rightarrow> lifecycle \<Rightarrow> napi_value \<times> lifecycle \<times> lifecycle_call list" where
  "StartListener has_callback s =
     (if \<not> has_callback then (Napi_null_TypeError, s, [])
      else if g_msgThread_joinable s then (Napi_true, s, [])
      else (Napi_true,
            s\<lparr>g_running := True, g_tsfn_handle := Tsfn_live, g_msgThread_joinable := True\<rparr>,
            [Tsfn_New, Thread_start]))"

text \<open>
  \<open>StopListener\<close>: clears the run flag, posts \<open>WM_QUIT\<close> to the thread of
  \<open>g_msgThread\<close> without a guard, joins when there is a thread to join, and releases
  the thread-safe function when the handle is non-empty.
\<close>

definition StopListener :: "lifecycle \<Rightarrow> napi_value \<times> lifecycle \<times> lifecycle_call list" where
  "StopListener s =
     (let s1 = s\<lparr>g_running := False\<rparr>;
          post = [PostThreadMessage_WM_QUIT (g_msgThread_joinable s1)];
          join = (if g_msgThread_joinable s1 then [Thread_join] else []);
          s2 = (if g_msgThread_joinable s1 then s1\<lparr>g_msgThread_joinable := False\<rparr> else s1);
          release = (if tsfn_nonempty (g_tsfn_handle s2)
                     then [Tsfn_Release (g_tsfn_handle s2)] else []);
          s3 = (if tsfn_nonempty (g_tsfn_handle s2)
                then s2\<lparr>g_tsfn_handle := Tsfn_released\<rparr> else s2)
      in (Napi_undefined, s3, post @ join @ release))"

definition initial_lifecycle :: lifecycle where
  "initial_lifecycle =
     \<lparr>g_running = True, g_msgThread_joinable = False, g_tsfn_handle = Tsfn_empty\<rparr>"

text \<open>The lifecycle after one start, and after one start and one stop.\<close>

definition running_lifecycle :: lifecycle where
  "running_lifecycle =
     \<lparr>g_running = True, g_msgThread_joinable = True, g_tsfn_handle = Tsfn_live\<rparr>"

definition stopped_lifecycle :: lifecycle where
  "stopped_lifecycle =
     \<lparr>g_running = False, g_msgThread_joinable = False, g_tsfn_handle = Tsfn_released\<rparr>"

subsection \<open>Facts about the message identifiers\<close>

lemma atoms_distinct:
  assumes "atoms_ok R" and "resolved R g"
  shows "WM_MAME_START g \<noteq> WM_COPYDATA"
    and "WM_MAME_REGISTER g \<noteq> WM_COPYDATA"
    and "WM_MAME_UPDATE g \<noteq> WM_COPYDATA"
    and "WM_MAME_UNREG g \<noteq> WM_COPYDATA"
    and "WM_MAME_STOP g \<noteq> WM_COPYDATA"
    and "WM_MAME_GET_ID g \<noteq> WM_COPYDATA"
    and "WM_MAME_REGISTER g \<noteq> WM_MAME_START g"
    and "WM_MAME_UPDATE g \<noteq> WM_MAME_START g"
    and "WM_MAME_UPDATE g \<noteq> WM_MAME_REGISTER g"
    and "WM_MAME_UNREG g \<noteq> WM_MAME_START g"
    and "WM_MAME_UNREG g \<noteq> WM_MAME_REGISTER g"
    and "WM_MAME_UNREG g \<noteq> WM_MAME_UPDATE g"
    and "WM_MAME_STOP g \<noteq> WM_MAME_START g"
    and "WM_MAME_STOP g \<noteq> WM_MAME_REGISTER g"
    and "WM_MAME_STOP g \<noteq> WM_MAME_UPDATE g"
    and "WM_MAME_STOP g \<noteq> WM_MAME_UNREG g"
    and "WM_MAME_GET_ID g \<noteq> WM_MAME_START g"
    and "WM_MAME_GET_ID g \<noteq> WM_MAME_REGISTER g"
    and "WM_MAME_GET_ID g \<noteq> WM_MAME_UPDATE g"
    and "WM_MAME_GET_ID g \<noteq> WM_MAME_UNREG g"
    and "WM_MAME_GET_ID g \<noteq> WM_MAME_STOP g"
    and "WM_MAME_REG g = WM_MAME_REGISTER g"
  using assms
  by (auto simp: atoms_ok_def resolved_def message_names_def WM_COPYDATA_def)

lemma sample_atoms_ok: "atoms_ok sample_atoms"
  by (simp add: atoms_ok_def message_names_def sample_atoms_def)

lemma resolved_messagePump: "resolved R (messagePump_resolve R g)"
  by (simp add: resolved_def messagePump_resolve_def)

lemma sample_globals_resolved: "resolved sample_atoms sample_globals"
  by (simp add: sample_globals_def resolved_messagePump)

lemma active_globals_resolved: "resolved sample_atoms active_globals"
  using sample_globals_resolved by (simp add: active_globals_def resolved_def)

lemma active_globals_fields:
  "g_tsfn active_globals"
  "g_mameHWND active_globals = 0x20"
  "g_idToName active_globals = [7 \<mapsto> ''Lives'', 9 \<mapsto> ''Credits'']"
  "WM_MAME_START active_globals = 0xC002"
  "WM_MAME_STOP active_globals = 0xC003"
  "WM_MAME_REGISTER active_globals = 0xC001"
  "WM_MAME_REG active_globals = 0xC001"
  "WM_MAME_UPDATE active_globals = 0xC004"
  "WM_MAME_GET_ID active_globals = 0xC005"
  "WM_MAME_UNREG active_globals = 0xC006"
  by (simp_all add: active_globals_def sample_globals_def messagePump_resolve_def
      initial_globals_def sample_atoms_def)

subsection \<open>What every step preserves\<close>

lemma WndProc_keeps_ids:
  assumes "WndProc g m = Inr (g', effs, r)"
  shows "WM_MAME_START g' = WM_MAME_START g \<and> WM_MAME_STOP g' = WM_MAME_STOP g
       \<and> WM_MAME_REGISTER g' = WM_MAME_REGISTER g \<and> WM_MAME_UPDATE g' = WM_MAME_UPDATE g
       \<and> WM_MAME_GET_ID g' = WM_MAME_GET_ID g \<and> WM_MAME_UNREG g' = WM_MAME_UNREG g
       \<and> WM_MAME_REG g' = WM_MAME_REG g \<and> g_tsfn g' = g_tsfn g"
  using assms
  by (auto simp: WndProc_def Let_def split: if_splits sum.splits prod.splits option.splits)

text \<open>Identifier 0 is never inserted: the only insertion sits in the branch for a non-zero identifier.\<close>

lemma WndProc_keeps_zero_unbound:
  assumes "WndProc g m = Inr (g', effs, r)" and "g_idToName g 0 = None"
  shows "g_idToName g' 0 = None"
  using assms
  by (auto simp: WndProc_def Let_def split: if_splits sum.splits prod.splits option.splits)

lemma state_after_Nil: "state_after g [] = g"
  by (simp add: state_after_def)

lemma state_after_Cons:
  "state_after g (m # ms) =
     (case WndProc g m of Inl e \<Rightarrow> g | Inr (g', effs, r) \<Rightarrow> state_after g' ms)"
  by (simp add: state_after_def split: sum.splits prod.splits)

lemma pump_keeps_zero_unbound:
  "g_idToName g 0 = None \<Longrightarrow> g_idToName (state_after g ms) 0 = None"
proof (induction ms arbitrary: g)
  case Nil
  then show ?case by (simp add: state_after_Nil)
next
  case (Cons m ms)
  show ?case
  proof (cases "WndProc g m")
    case (Inl e)
    with Cons.prems show ?thesis by (simp add: state_after_Cons)
  next
    case (Inr res)
    obtain g' effs r where res: "res = (g', effs, r)" by (cases res) auto
    with Inr Cons.prems have "g_idToName g' 0 = None"
      by (auto dest: WndProc_keeps_zero_unbound)
    from Cons.IH [OF this] Inr res show ?thesis
      by (simp add: state_after_Cons)
  qed
qed

text \<open>
  A message that is no session start, no unregister of \<open>i\<close> and no label record for
  \<open>i\<close> leaves the table at \<open>i\<close> as it was.
\<close>

lemma WndProc_frame:
  assumes "WndProc g m = Inr (g', effs, r)"
    and "\<not> is_session_start g m" and "\<not> is_unregister g i m" and "\<not> is_label_record i m"
  shows "g_idToName g' i = g_idToName g i"
  using assms
  by (auto simp: WndProc_def Let_def is_session_start_def is_unregister_def is_label_record_def
      split: if_splits sum.splits prod.splits option.splits)


lemma pump_frame:
  assumes "\<forall>m \<in> set ms. \<not> is_session_start g m \<and> \<not> is_unregister g i m
             \<and> \<not> is_label_record i m"
  shows "g_idToName (state_after g ms) i = g_idToName g i"
  using assms
proof (induction ms arbitrary: g)
  case Nil
  then show ?case by (simp add: state_after_Nil)
next
  case (Cons m ms)
  show ?case
  proof (cases "WndProc g m")
    case (Inl e)
    then show ?thesis by (simp add: state_after_Cons)
  next
    case (Inr res)
    obtain g' effs r where res: "res = (g', effs, r)" by (cases res) auto
    from Inr res have step: "WndProc g m = Inr (g', effs, r)" by simp
    from Cons.prems have here: "\<not> is_session_start g m" "\<not> is_unregister g i m"
      "\<not> is_label_record i m" by simp_all
    have same: "g_idToName g' i = g_idToName g i"
      by (rule WndProc_frame [OF step here])
    from WndProc_keeps_ids [OF step]
    have ids: "is_session_start g' = is_session_start g" "is_unregister g' i = is_unregister g i"
      by (simp_all add: fun_eq_iff is_session_start_def is_unregister_def)
    from Cons.prems ids
    have "\<forall>m \<in> set ms. \<not> is_session_start g' m \<and> \<not> is_unregister g' i m
             \<and> \<not> is_label_record i m" by simp
    from Cons.IH [OF this] same step show ?thesis
      by (simp add: state_after_Cons)
  qed
qed

lemma pump_keeps_ids:
  "WM_MAME_START (state_after g ms) = WM_MAME_START g
   \<and> WM_MAME_STOP (state_after g ms) = WM_MAME_STOP g
   \<and> WM_MAME_REGISTER (state_after g ms) = WM_MAME_REGISTER g
   \<and> WM_MAME_UPDATE (state_after g ms) = WM_MAME_UPDATE g
   \<and> WM_MAME_GET_ID (state_after g ms) = WM_MAME_GET_ID g
   \<and> WM_MAME_UNREG (state_after g ms) = WM_MAME_UNREG g
   \<and> WM_MAME_REG (state_after g ms) = WM_MAME_REG g
   \<and> g_tsfn (state_after g ms) = g_tsfn g"
proof (induction ms arbitrary: g)
  case Nil
  then show ?case by (simp add: state_after_Nil)
next
  case (Cons m ms)
  show ?case
  proof (cases "WndProc g m")
    case (Inl e)
    then show ?thesis by (simp add: state_after_Cons)
  next
    case (Inr res)
    obtain g' effs r where res: "res = (g', effs, r)" by (cases res) auto
    from Inr res have step: "WndProc g m = Inr (g', effs, r)" by simp
    from Cons.IH [of g'] WndProc_keeps_ids [OF step] step show ?thesis
      by (simp add: state_after_Cons)
  qed
qed

lemma pump_resolved: "resolved R g \<Longrightarrow> resolved R (state_after g ms)"
  using pump_keeps_ids [of g ms] by (simp add: resolved_def)

subsection \<open>Single steps and runs\<close>

lemma label_record_step:
  assumes "message m = WM_COPYDATA" and "dwData (copydata m) = 1" and "5 \<le> cbData (copydata m)"
    and "decode_label (copydata m) = Inr (i, L)"
  shows "WndProc g m =
           (if i = 0 then
              Inr (g\<lparr>g_currentRomName := L\<rparr>,
                   pushStringToJS g ''__GAME_NAME__'' L @ pushToJS g ''__GAME_NAME__'' 0,
                   Returns 1)
            else
              Inr (g\<lparr>g_idToName := (g_idToName g)(i \<mapsto> L)\<rparr>,
                   pushLabelToJS g (id_key i) L @ pushToJS g (id_key i) 0,
                   Returns 1))"
  using assms by (simp add: WndProc_def Let_def)

lemma failure_after_Nil: "failure_after g [] = None"
  by (simp add: failure_after_def)

lemma failure_after_Cons:
  "failure_after g (m # ms) =
     (case WndProc g m of Inl e \<Rightarrow> Some e | Inr (g', effs, r) \<Rightarrow> failure_after g' ms)"
  by (simp add: failure_after_def split: sum.splits prod.splits)

lemma effects_after_Nil: "effects_after g [] = []"
  by (simp add: effects_after_def)

lemma effects_after_Cons:
  "effects_after g (m # ms) =
     (case WndProc g m of Inl e \<Rightarrow> [] | Inr (g', effs, r) \<Rightarrow> effs @ effects_after g' ms)"
  by (simp add: effects_after_def split: sum.splits prod.splits)

lemma state_after_append:
  "failure_after g ms = None \<Longrightarrow> state_after g (ms @ ms') = state_after (state_after g ms) ms'"
proof (induction ms arbitrary: g)
  case Nil
  then show ?case by (simp add: state_after_Nil)
next
  case (Cons m ms)
  then show ?case
    by (cases "WndProc g m") (auto simp: state_after_Cons failure_after_Cons)
qed

lemma unregister_step:
  assumes "atoms_ok R" and "resolved R g" and "message m = WM_MAME_UNREG g"
  shows "WndProc g m =
           Inr (g\<lparr>g_idToName := (g_idToName g)((ucast (lParam m) :: UINT) := None)\<rparr>, [], Returns 0)"
  using assms atoms_distinct [OF assms(1,2)]
  by (simp add: WndProc_def Let_def)

lemma start_step:
  assumes "atoms_ok R" and "resolved R g" and "message m = WM_MAME_START g"
  shows "WndProc g m =
           Inr (g\<lparr>g_mameHWND := wParam m, g_idToName := Map.empty\<rparr>,
                pushToJS g ''__MAME_START__'' 1
                @ [PostMessage HWND_BROADCAST (WM_MAME_REG g) (hwnd m) 0,
                   PostMessage (wParam m) (WM_MAME_REG g) (hwnd m) 0,
                   PostMessage HWND_BROADCAST (WM_MAME_GET_ID g) (hwnd m) 0,
                   PostMessage (wParam m) (WM_MAME_GET_ID g) (hwnd m) 0],
                Returns 0)"
  using assms atoms_distinct(1) [OF assms(1,2)]
  by (simp add: WndProc_def pushToJS_def Let_def)

lemmas eval_digits = to_string_def dec_digits.simps digit_char_def char_of_def bit_iff_odd

lemmas eval_stoi = read_payload_def find_char_def stoi_def isspace_def isdigit_def dec_value_def

subsection \<open>The label decoder\<close>

lemma byte_of_word: "(of_char (char_of (unat (x::32 word))) :: 32 word) = take_bit 8 x"
proof -
  have "(of_char (char_of (unat x)) :: 32 word) = of_nat (of_char (char_of (unat x)))"
    by (simp only: of_nat_of_char)
  also have "\<dots> = of_nat (take_bit 8 (unat x))"
    by (simp add: take_bit_eq_mod)
  also have "\<dots> = take_bit 8 x"
    by (simp add: of_nat_take_bit)
  finally show ?thesis .
qed

lemma word_bytes:
  "take_bit 8 x + push_bit 8 (take_bit 8 (drop_bit 8 x)) + push_bit 16 (take_bit 8 (drop_bit 16 x))
     + push_bit 24 (take_bit 8 (drop_bit 24 x)) = (x::32 word)"
proof -
  have full: "take_bit 32 x = x"
    using take_bit_length_eq [of x] by simp
  have top: "take_bit 8 (drop_bit 24 x) = drop_bit 24 x"
    by (simp add: take_bit_drop_bit full)
  have s3: "drop_bit 16 x = push_bit 8 (drop_bit 24 x) + take_bit 8 (drop_bit 16 x)"
    using bits_ident [of 8 "drop_bit 16 x"] by (simp add: drop_bit_drop_bit)
  have s2: "drop_bit 8 x = push_bit 8 (drop_bit 16 x) + take_bit 8 (drop_bit 8 x)"
    using bits_ident [of 8 "drop_bit 8 x"] by (simp add: drop_bit_drop_bit)
  have s1: "x = push_bit 8 (drop_bit 8 x) + take_bit 8 x"
    using bits_ident [of 8 x] by simp
  have "x = push_bit 8 (push_bit 8 (push_bit 8 (drop_bit 24 x) + take_bit 8 (drop_bit 16 x))
              + take_bit 8 (drop_bit 8 x)) + take_bit 8 x"
    using s1 s2 s3 by simp
  also have "\<dots> = take_bit 8 x + push_bit 8 (take_bit 8 (drop_bit 8 x))
      + push_bit 16 (take_bit 8 (drop_bit 16 x)) + push_bit 24 (drop_bit 24 x)"
    by (simp add: push_bit_add push_bit_push_bit ac_simps)
  finally show ?thesis
    by (simp add: top)
qed

lemma takeWhile_no_NUL: "NUL \<notin> set l \<Longrightarrow> takeWhile (\<lambda>c. c \<noteq> NUL) (l @ NUL # t) = l"
  by (induction l) auto

lemma takeWhile_all_no_NUL: "NUL \<notin> set l \<Longrightarrow> takeWhile (\<lambda>c. c \<noteq> NUL) l = l"
  by (induction l) auto

lemma strnlen_terminated:
  assumes "NUL \<notin> set l" and "length l < k"
  shows "strnlen (l @ NUL # t) k = Inr (length l)"
proof -
  from assms(2) obtain j where k: "k = length l + Suc j"
    by (metis less_iff_Suc_add add_Suc_right)
  have w: "take k (l @ NUL # t) = l @ NUL # take j t"
    by (simp add: k)
  show ?thesis
    unfolding strnlen_def w Let_def
    by (simp add: takeWhile_no_NUL [OF assms(1)])
qed

lemma strnlen_bounded:
  assumes "NUL \<notin> set l"
  shows "strnlen (l @ t) (length l) = Inr (length l)"
  using assms by (simp add: strnlen_def Let_def takeWhile_all_no_NUL)

lemma strnlen_in_bounds:
  assumes "k \<le> length s"
  shows "strnlen s k = Inr (length (takeWhile (\<lambda>c. c \<noteq> NUL) (take k s)))"
  using assms by (simp add: strnlen_def Let_def)

lemma strnlen_take:
  "strnlen (take k s) k = strnlen s k"
  by (simp add: strnlen_def Let_def)

lemma strnlen_le:
  assumes "strnlen s k = Inr len"
  shows "len \<le> k \<and> len \<le> length s"
proof -
  from assms have "len = length (takeWhile (\<lambda>c. c \<noteq> NUL) (take k s))"
    by (simp add: strnlen_def Let_def split: if_splits)
  moreover have "length (takeWhile (\<lambda>c. c \<noteq> NUL) (take k s)) \<le> length (take k s)"
    by (rule length_takeWhile_le)
  ultimately show ?thesis by simp
qed

lemma read_UINT_take:
  assumes "4 \<le> k"
  shows "read_UINT (take k buf) = read_UINT buf"
proof -
  define j where "j = k - 4"
  with assms have k: "k = Suc (Suc (Suc (Suc j)))" by simp
  show ?thesis
    unfolding k by (simp add: read_UINT_def split: list.splits)
qed

lemma decode_label_reads_declared_bytes:
  assumes "4 \<le> unat (cbData cds)"
  shows "decode_label (cds\<lparr>lpData := take (unat (cbData cds)) (lpData cds)\<rparr>) = decode_label cds"
proof -
  define n where "n = unat (cbData cds)"
  define buf where "buf = lpData cds"
  have n4: "4 \<le> n" using assms by (simp add: n_def)
  have d: "drop 4 (take n buf) = take (n - 4) (drop 4 buf)"
    by (simp add: drop_take)
  have lhs: "decode_label (cds\<lparr>lpData := take n buf\<rparr>) =
               (case read_UINT buf of Inl e \<Rightarrow> Inl e
                | Inr i \<Rightarrow> (case strnlen (drop 4 buf) (n - 4) of Inl e \<Rightarrow> Inl e
                            | Inr len \<Rightarrow> Inr (i, take len (take (n - 4) (drop 4 buf)))))"
    unfolding decode_label_def Let_def
    by (simp add: n_def [symmetric] read_UINT_take [OF n4] d strnlen_take cong: sum.case_cong)
  have rhs: "decode_label cds =
               (case read_UINT buf of Inl e \<Rightarrow> Inl e
                | Inr i \<Rightarrow> (case strnlen (drop 4 buf) (n - 4) of Inl e \<Rightarrow> Inl e
                            | Inr len \<Rightarrow> Inr (i, take len (drop 4 buf))))"
    unfolding decode_label_def Let_def by (simp add: n_def buf_def cong: sum.case_cong)
  have "take len (take (n - 4) (drop 4 buf)) = take len (drop 4 buf)"
    if "strnlen (drop 4 buf) (n - 4) = Inr len" for len
    using strnlen_le [OF that] by (simp add: min_def)
  then show ?thesis
    unfolding n_def [symmetric] buf_def [symmetric] lhs rhs
    by (simp split: sum.splits)
qed

lemma take_prefix_self:
  "take (length (takeWhile P (take k s))) s = takeWhile P (take k s)"
proof -
  define a where "a = length (takeWhile P (take k s))"
  have "a \<le> length (take k s)"
    unfolding a_def by (rule length_takeWhile_le)
  then have le: "a \<le> k" by simp
  have "take a s = take a (take k s)"
    using le by (simp add: min_absorb1)
  also have "\<dots> = takeWhile P (take k s)"
    unfolding a_def by (rule takeWhile_eq_take [symmetric])
  finally show ?thesis unfolding a_def .
qed

lemma read_UINT_defined: "4 \<le> length buf \<Longrightarrow> \<exists>i. read_UINT buf = Inr i"
  by (auto simp: read_UINT_def split: list.splits)

lemma read_UINT_encode: "read_UINT (encode_label_record i l @ t) = Inr i"
  by (simp add: read_UINT_def encode_label_record_def byte_of_word word_bytes)

lemma pac_man_no_NUL: "NUL \<notin> set ''Pac-Man''"
  by (simp add: NUL_def)

lemma drop_encoded: "drop 4 (encode_label_record i l @ t) = l @ t"
  by (simp add: encode_label_record_def)

lemma decode_label_terminated:
  assumes "NUL \<notin> set l" and "length l + 5 \<le> unat n"
    and "read_UINT (encode_label_record i l @ NUL # t) = Inr i"
  shows "decode_label \<lparr>dwData = tag, cbData = n, lpData = encode_label_record i l @ NUL # t\<rparr>
           = Inr (i, l)"
proof -
  from assms(2) have "length l < unat n - 4" by simp
  from strnlen_terminated [OF assms(1) this, of t] assms(3) show ?thesis
    unfolding decode_label_def Let_def by (simp add: drop_encoded del: drop_append)
qed

lemma decode_label_bounded:
  assumes "NUL \<notin> set l" and "unat n = length l + 4"
    and "read_UINT (encode_label_record i l @ t) = Inr i"
  shows "decode_label \<lparr>dwData = tag, cbData = n, lpData = encode_label_record i l @ t\<rparr>
           = Inr (i, l)"
  using strnlen_bounded [OF assms(1), of t] assms(2,3)
  unfolding decode_label_def Let_def by (simp add: drop_encoded del: drop_append)

subsection \<open>Evaluated facts about the test messages\<close>

lemma events_of_simps:
  "events_of [] = []"
  "events_of (BlockingCall ev # effs) = ev # events_of effs"
  "events_of (PostMessage t u w l # effs) = events_of effs"
  by (simp_all add: events_of_def)

lemma id_key_7: "id_key 7 = ''id_7''"
  by (simp add: id_key_def eval_digits)

lemma bonus_label_fields:
  "message bonus_label = WM_COPYDATA"
  "dwData (copydata bonus_label) = 1"
  "5 \<le> cbData (copydata bonus_label)"
  "decode_label (copydata bonus_label) = Inr (12, ''Bonus'')"
  by code_simp+

lemma quiet_run_quiet:
  "\<forall>m' \<in> set quiet_run. \<not> is_session_start active_globals m'
      \<and> \<not> is_unregister active_globals 12 m' \<and> \<not> is_label_record 12 m'"
  by code_simp

lemma quiet_run_no_failure: "failure_after active_globals (bonus_label # quiet_run) = None"
  by code_simp

lemma unregister_12: "is_unregister active_globals 12 (control_msg 0x10 0xC006 0 12)"
  by code_simp

lemma start_again: "is_session_start active_globals (control_msg 0x10 0xC002 0x30 0)"
  by code_simp

lemma run_name_label_fields:
  "message run_name_label = WM_COPYDATA"
  "dwData (copydata run_name_label) = 1"
  "5 \<le> cbData (copydata run_name_label)"
  "decode_label (copydata run_name_label) = Inr (0, ''pacman'')"
  by code_simp+

lemma padded_packet_fields:
  "5 \<le> unat (cbData padded_packet)"
  "unat (cbData padded_packet) \<le> length (lpData padded_packet)"
  "take (unat (cbData padded_packet)) (lpData padded_packet)
     = encode_label_record 42 ''Pac'' @ NUL # ''XYZ!''"
  "takeWhile (\<lambda>c. c \<noteq> NUL)
     (take (unat (cbData padded_packet) - 4) (drop 4 (lpData padded_packet))) = ''Pac''"
  by (simp_all add: padded_packet_def encode_label_record_def NUL_def)

section \<open>The key/value path\<close>

text \<open>
  The fallback branch as a whole: a payload that is no id+label packet, is longer than
  three bytes and holds an \<open>=\<close> gives whatever \<open>std::stoi\<close> gives on the text after
  the first \<open>=\<close>: one call of \<open>pushToJS\<close> with the key and the value, or the exception.
\<close>

lemma key_value_step:
  assumes "message m = WM_COPYDATA"
    and "\<not> (dwData (copydata m) = 1 \<and> 5 \<le> cbData (copydata m))"
    and "3 < cbData (copydata m)"
    and "read_payload (copydata m) = Inr payload"
    and "find_char payload CHR ''='' = Some eq"
  shows "WndProc g m =
           (case stoi (drop (eq + 1) payload) of
              Inl e \<Rightarrow> Inl e
            | Inr v \<Rightarrow> Inr (g, pushToJS g (take eq payload) v, Returns 1))"
  using assms
  by (cases "dwData (copydata m) = 1") (simp_all add: WndProc_def Let_def)

text \<open>
  A payload of more than three bytes that holds an \<open>=\<close> followed by decimal digits gives
  one call of \<open>pushToJS\<close> with the key and the parsed value.
\<close>

lemma key_value_numeric_emits:
  "WndProc g (copydata_msg h \<lparr>dwData = 0, cbData = 10, lpData = ''score=1500''\<rparr>)
     = Inr (g, pushToJS g ''score'' 1500, Returns 1)"
  by (simp add: WndProc_def copydata_msg_def eval_stoi)

text \<open>
  C1. The claim: on the key/value path a numeric suffix gives exactly one numeric update,
  and a non-numeric suffix gives a decode error with no event that is skipped, never
  propagated as a fatal error. The theorem evaluates the window procedure on the
  nine-byte payload \<open>score=abc\<close> with tag 0: \<open>std::stoi\<close> raises
  \<open>std::invalid_argument\<close>, the window procedure has no handler and does not return,
  no event is emitted, and the dispatch loop does not reach the messages that follow.
\<close>

theorem key_value_non_numeric_throws:
  "WndProc g (copydata_msg h \<lparr>dwData = 0, cbData = 9, lpData = ''score=abc''\<rparr>)
     = Inl Stoi_invalid_argument
   \<and> pump g (copydata_msg h \<lparr>dwData = 0, cbData = 9, lpData = ''score=abc''\<rparr> # ms)
     = (g, [], Some Stoi_invalid_argument)"
  by (simp add: WndProc_def copydata_msg_def eval_stoi)

section \<open>Session start and session stop\<close>

text \<open>
  C4. From any globals (any source window, any table), with a callback bound and the
  message identifiers resolved, a session-start message stores the sender's handle,
  leaves the table empty, hands \<open>session_started\<close> to the callback and posts the
  register request and the request for all labels (identifier 0), each one to the
  broadcast handle and to the new source handle.
\<close>

theorem session_start_clears_and_requests:
  assumes "atoms_ok R" and "resolved R g" and "g_tsfn g" and "message m = WM_MAME_START g"
  shows "WndProc g m =
           Inr (g\<lparr>g_mameHWND := wParam m, g_idToName := Map.empty\<rparr>,
                [BlockingCall session_started,
                 PostMessage HWND_BROADCAST (WM_MAME_REG g) (hwnd m) 0,
                 PostMessage (wParam m) (WM_MAME_REG g) (hwnd m) 0,
                 PostMessage HWND_BROADCAST (WM_MAME_GET_ID g) (hwnd m) 0,
                 PostMessage (wParam m) (WM_MAME_GET_ID g) (hwnd m) 0],
                Returns 0)
         \<and> dom (g_idToName (g\<lparr>g_mameHWND := wParam m, g_idToName := Map.empty\<rparr>)) = {}"
  using assms atoms_distinct(1) [OF assms(1,2)]
  by (simp add: WndProc_def pushToJS_def Let_def)

theorem session_start_clears_and_requests_witness:
  "atoms_ok sample_atoms \<and> resolved sample_atoms active_globals \<and> g_tsfn active_globals
   \<and> message (control_msg 0x10 0xC002 0x30 0) = WM_MAME_START active_globals
   \<and> g_idToName active_globals 7 = Some ''Lives''
   \<and> WndProc active_globals (control_msg 0x10 0xC002 0x30 0) =
       Inr (active_globals\<lparr>g_mameHWND := 0x30, g_idToName := Map.empty\<rparr>,
            [BlockingCall session_started,
             PostMessage HWND_BROADCAST 0xC001 0x10 0,
             PostMessage 0x30 0xC001 0x10 0,
             PostMessage HWND_BROADCAST 0xC005 0x10 0,
             PostMessage 0x30 0xC005 0x10 0],
            Returns 0)"
  using session_start_clears_and_requests
          [of sample_atoms active_globals "control_msg 0x10 0xC002 0x30 0"]
    sample_atoms_ok active_globals_resolved
  by (simp add: active_globals_fields control_msg_def)

text \<open>
  C8. With a callback bound and the message identifiers resolved, a session-stop message
  hands exactly \<open>session_stopped\<close> to the callback and returns the globals as they
  were: the table, the source handle and everything else are unchanged.
\<close>

theorem session_stop_frame:
  assumes "atoms_ok R" and "resolved R g" and "g_tsfn g" and "message m = WM_MAME_STOP g"
  shows "WndProc g m = Inr (g, [BlockingCall session_stopped], Returns 0)"
  using assms atoms_distinct [OF assms(1,2)]
  by (simp add: WndProc_def pushToJS_def Let_def)

theorem session_stop_frame_witness:
  "atoms_ok sample_atoms \<and> resolved sample_atoms active_globals \<and> g_tsfn active_globals
   \<and> message (control_msg 0x10 0xC003 0 0) = WM_MAME_STOP active_globals
   \<and> WndProc active_globals (control_msg 0x10 0xC003 0 0) =
       Inr (active_globals, [BlockingCall session_stopped], Returns 0)"
  using session_stop_frame [of sample_atoms active_globals "control_msg 0x10 0xC003 0 0"]
    sample_atoms_ok active_globals_resolved
  by (simp add: active_globals_fields control_msg_def)

section \<open>Updates\<close>

text \<open>
  C6. With a callback bound and the message identifiers resolved, an update whose
  identifier (the low 32 bits of \<open>wParam\<close>) is not zero and not in the table, while a
  source handle is known, posts exactly two requests for that identifier's label, one
  to the broadcast handle and one to the source, and hands exactly one numeric update
  to the callback, keyed \<open>id_\<close> followed by the decimal identifier; all of it within
  the one call of the window procedure. An update for identifier 0 posts nothing.
\<close>

theorem update_unknown_identifier:
  assumes "atoms_ok R" and "resolved R g" and "g_tsfn g" and "message m = WM_MAME_UPDATE g"
  shows "(ucast (wParam m) \<noteq> (0::UINT) \<and> g_idToName g (ucast (wParam m)) = None
            \<and> g_mameHWND g \<noteq> 0 \<longrightarrow>
          WndProc g m =
            Inr (g,
                 [PostMessage HWND_BROADCAST (WM_MAME_GET_ID g) (hwnd m)
                    (ucast (ucast (wParam m) :: UINT)),
                  PostMessage (g_mameHWND g) (WM_MAME_GET_ID g) (hwnd m)
                    (ucast (ucast (wParam m) :: UINT)),
                  BlockingCall (Numeric_update (''id_'' @ to_string (ucast (wParam m)))
                    (sint (ucast (lParam m) :: 32 word)))],
                 Returns 0))
       \<and> (ucast (wParam m) = (0::UINT) \<longrightarrow>
          WndProc g m =
            Inr (g,
                 [BlockingCall (Numeric_update ''__GAME_NAME__''
                    (sint (ucast (lParam m) :: 32 word)))],
                 Returns 0))"
  using assms atoms_distinct [OF assms(1,2)]
  by (simp add: WndProc_def pushToJS_def id_key_def Let_def)

theorem update_unknown_identifier_witness:
  "atoms_ok sample_atoms \<and> resolved sample_atoms active_globals \<and> g_tsfn active_globals
   \<and> message (control_msg 0x10 0xC004 12 5) = WM_MAME_UPDATE active_globals
   \<and> message (control_msg 0x10 0xC004 0 5) = WM_MAME_UPDATE active_globals
   \<and> ucast (wParam (control_msg 0x10 0xC004 12 5)) \<noteq> (0::UINT)
   \<and> g_idToName active_globals (ucast (wParam (control_msg 0x10 0xC004 12 5))) = None
   \<and> g_mameHWND active_globals \<noteq> 0
   \<and> WndProc active_globals (control_msg 0x10 0xC004 12 5) =
       Inr (active_globals,
            [PostMessage HWND_BROADCAST 0xC005 0x10 12,
             PostMessage 0x20 0xC005 0x10 12,
             BlockingCall (Numeric_update ''id_12'' 5)],
            Returns 0)
   \<and> ucast (wParam (control_msg 0x10 0xC004 0 5)) = (0::UINT)
   \<and> WndProc active_globals (control_msg 0x10 0xC004 0 5) =
       Inr (active_globals, [BlockingCall (Numeric_update ''__GAME_NAME__'' 5)], Returns 0)"
  using update_unknown_identifier [of sample_atoms active_globals "control_msg 0x10 0xC004 12 5"]
    update_unknown_identifier [of sample_atoms active_globals "control_msg 0x10 0xC004 0 5"]
    sample_atoms_ok active_globals_resolved
  by (simp add: active_globals_fields control_msg_def eval_digits)

section \<open>The table of labels\<close>

text \<open>
  C5. In every state the dispatch loop reaches from the initial globals, whatever the
  messages and whatever identifiers \<open>RegisterWindowMessageA\<close> returned, the table has
  no entry for identifier 0; more generally every run from globals without such an
  entry ends without one. A label record with identifier 0 is not stored: with a
  callback bound it sets the current run name and hands a text update and a numeric
  update with value 0 on the reserved key \<open>__GAME_NAME__\<close> to the callback, and the
  table is as before.
\<close>

theorem sentinel_never_bound:
  "g_idToName (state_after (messagePump_resolve R (initial_globals tsfn)) ms) 0 = None
   \<and> (g_idToName g 0 = None \<longrightarrow> g_idToName (state_after g ms) 0 = None)
   \<and> (g_tsfn g \<and> message m = WM_COPYDATA \<and> dwData (copydata m) = 1
        \<and> 5 \<le> cbData (copydata m) \<and> decode_label (copydata m) = Inr (0, L) \<longrightarrow>
      WndProc g m =
        Inr (g\<lparr>g_currentRomName := L\<rparr>,
             [BlockingCall (Text_update ''__GAME_NAME__'' L),
              BlockingCall (Numeric_update ''__GAME_NAME__'' 0)],
             Returns 1)
      \<and> g_idToName (g\<lparr>g_currentRomName := L\<rparr>) = g_idToName g)"
proof -
  have "g_idToName (messagePump_resolve R (initial_globals tsfn)) 0 = None"
    by (simp add: messagePump_resolve_def initial_globals_def)
  then have "g_idToName (state_after (messagePump_resolve R (initial_globals tsfn)) ms) 0 = None"
    by (rule pump_keeps_zero_unbound)
  moreover have "g_idToName g 0 = None \<longrightarrow> g_idToName (state_after g ms) 0 = None"
    by (simp add: pump_keeps_zero_unbound)
  moreover have "g_tsfn g \<and> message m = WM_COPYDATA \<and> dwData (copydata m) = 1
        \<and> 5 \<le> cbData (copydata m) \<and> decode_label (copydata m) = Inr (0, L) \<longrightarrow>
      WndProc g m =
        Inr (g\<lparr>g_currentRomName := L\<rparr>,
             [BlockingCall (Text_update ''__GAME_NAME__'' L),
              BlockingCall (Numeric_update ''__GAME_NAME__'' 0)],
             Returns 1)
      \<and> g_idToName (g\<lparr>g_currentRomName := L\<rparr>) = g_idToName g"
    by (simp add: label_record_step pushStringToJS_def pushToJS_def)
  ultimately show ?thesis by blast
qed

theorem sentinel_never_bound_witness:
  "g_idToName active_globals 0 = None
   \<and> g_idToName (state_after active_globals (run_name_label # bonus_label # quiet_run)) 0 = None
   \<and> g_tsfn active_globals \<and> message run_name_label = WM_COPYDATA
   \<and> dwData (copydata run_name_label) = 1 \<and> 5 \<le> cbData (copydata run_name_label)
   \<and> decode_label (copydata run_name_label) = Inr (0, ''pacman'')
   \<and> WndProc active_globals run_name_label =
        Inr (active_globals\<lparr>g_currentRomName := ''pacman''\<rparr>,
             [BlockingCall (Text_update ''__GAME_NAME__'' ''pacman''),
              BlockingCall (Numeric_update ''__GAME_NAME__'' 0)],
             Returns 1)"
  using sentinel_never_bound [of sample_atoms True "run_name_label # bonus_label # quiet_run"
          active_globals run_name_label "''pacman''"]
    run_name_label_fields
  by (simp add: active_globals_fields)

text \<open>
  C3, as amended. For an identifier \<open>i\<close> other than 0, once a label record \<open>(i, L)\<close> is
  processed the table gives \<open>L\<close> at \<open>i\<close>, and it still does after any run of messages
  that holds no session start, no unregister whose identifier (the low 32 bits of
  \<open>lParam\<close>) is \<open>i\<close>, and no further label record for \<open>i\<close>; a later label record for
  \<open>i\<close> replaces the label. An unregister of \<open>i\<close> or a session start processed after
  such a run leaves no entry at \<open>i\<close>.
\<close>

theorem label_binding_persists:
  assumes ok: "atoms_ok R" "resolved R g"
    and i: "i \<noteq> 0"
    and m: "message m = WM_COPYDATA" "dwData (copydata m) = 1" "5 \<le> cbData (copydata m)"
      "decode_label (copydata m) = Inr (i, L)"
    and ms: "\<forall>m' \<in> set ms. \<not> is_session_start g m' \<and> \<not> is_unregister g i m'
               \<and> \<not> is_label_record i m'"
  shows "g_idToName (state_after g [m]) i = Some L
       \<and> g_idToName (state_after g (m # ms)) i = Some L
       \<and> (failure_after g (m # ms) = None \<and> is_unregister g i u \<longrightarrow>
            g_idToName (state_after g (m # ms @ [u])) i = None)
       \<and> (failure_after g (m # ms) = None \<and> is_session_start g u \<longrightarrow>
            g_idToName (state_after g (m # ms @ [u])) i = None)"
proof -
  define g1 where "g1 = g\<lparr>g_idToName := (g_idToName g)(i \<mapsto> L)\<rparr>"
  have step: "WndProc g m = Inr (g1, pushLabelToJS g (id_key i) L @ pushToJS g (id_key i) 0, Returns 1)"
    using label_record_step [OF m, of g] i by (simp add: g1_def)
  have first: "g_idToName (state_after g [m]) i = Some L"
    by (simp add: state_after_Cons state_after_Nil step g1_def)
  have preds: "is_session_start g1 = is_session_start g" "is_unregister g1 i = is_unregister g i"
    by (simp_all add: fun_eq_iff is_session_start_def is_unregister_def g1_def)
  have res1: "resolved R g1"
    using ok(2) by (simp add: resolved_def g1_def)
  define g2 where "g2 = state_after g1 ms"
  have "g_idToName g2 i = g_idToName g1 i"
    unfolding g2_def using ms preds by (intro pump_frame) simp
  then have g2i: "g_idToName g2 i = Some L"
    by (simp add: g1_def)
  have run: "state_after g (m # ms) = g2"
    by (simp add: state_after_Cons step g2_def)
  have res2: "resolved R g2"
    unfolding g2_def by (rule pump_resolved [OF res1])
  have ids2: "WM_MAME_START g2 = WM_MAME_START g" "WM_MAME_UNREG g2 = WM_MAME_UNREG g"
    using pump_keeps_ids [of g1 ms] by (simp_all add: g1_def g2_def)
  have last: "state_after g (m # ms @ [u]) = state_after g2 [u]" if "failure_after g (m # ms) = None"
    using state_after_append [of g "m # ms" "[u]"] that run by simp
  have unreg: "g_idToName (state_after g2 [u]) i = None" if "is_unregister g i u"
  proof -
    from that ids2 have "message u = WM_MAME_UNREG g2" "ucast (lParam u) = i"
      by (simp_all add: is_unregister_def)
    with unregister_step [OF ok(1) res2, of u] show ?thesis
      by (simp add: state_after_Cons state_after_Nil)
  qed
  have start: "g_idToName (state_after g2 [u]) i = None" if "is_session_start g u"
  proof -
    from that ids2 have "message u = WM_MAME_START g2"
      by (simp add: is_session_start_def)
    with start_step [OF ok(1) res2, of u] show ?thesis
      by (simp add: state_after_Cons state_after_Nil)
  qed
  from first g2i run last unreg start show ?thesis by simp
qed

theorem label_binding_persists_witness:
  "atoms_ok sample_atoms \<and> resolved sample_atoms active_globals \<and> (12::UINT) \<noteq> 0
   \<and> message bonus_label = WM_COPYDATA \<and> dwData (copydata bonus_label) = 1
   \<and> 5 \<le> cbData (copydata bonus_label)
   \<and> decode_label (copydata bonus_label) = Inr (12, ''Bonus'')
   \<and> list_all (\<lambda>m'. \<not> is_session_start active_globals m'
         \<and> \<not> is_unregister active_globals 12 m' \<and> \<not> is_label_record 12 m') quiet_run
   \<and> failure_after active_globals (bonus_label # quiet_run) = None
   \<and> is_unregister active_globals 12 (control_msg 0x10 0xC006 0 12)
   \<and> is_session_start active_globals (control_msg 0x10 0xC002 0x30 0)
   \<and> g_idToName (state_after active_globals [bonus_label]) 12 = Some ''Bonus''
   \<and> g_idToName (state_after active_globals (bonus_label # quiet_run)) 12 = Some ''Bonus''
   \<and> g_idToName (state_after active_globals
         (bonus_label # quiet_run @ [control_msg 0x10 0xC006 0 12])) 12 = None
   \<and> g_idToName (state_after active_globals
         (bonus_label # quiet_run @ [control_msg 0x10 0xC002 0x30 0])) 12 = None"
  using label_binding_persists [of sample_atoms active_globals 12 bonus_label "''Bonus''"
          quiet_run "control_msg 0x10 0xC006 0 12"]
    label_binding_persists [of sample_atoms active_globals 12 bonus_label "''Bonus''"
          quiet_run "control_msg 0x10 0xC002 0x30 0"]
    sample_atoms_ok active_globals_resolved bonus_label_fields quiet_run_quiet
    quiet_run_no_failure unregister_12 start_again
  by (simp add: list_all_iff)

theorem label_binding_persists_counterexample:
  "g_idToName (state_after active_globals [bonus_label]) 12 = Some ''Bonus''
   \<and> \<not> is_session_start active_globals extra_label
   \<and> \<not> is_unregister active_globals 12 extra_label
   \<and> failure_after active_globals [bonus_label, extra_label] = None
   \<and> g_idToName (state_after active_globals [bonus_label, extra_label]) 12 = Some ''Extra''
   \<and> g_idToName (state_after active_globals [bonus_label, extra_label]) 12 \<noteq> Some ''Bonus''"
  by code_simp

section \<open>The scenario of a session\<close>

text \<open>
  C2. From any globals with a callback bound, a session start, then a label record
  that decodes to \<open>(7, Lives)\<close>, then an update of identifier 7 to the value 3 hand
  to the callback, in this order: \<open>session_started\<close>, the label update of \<open>id_7\<close>
  to \<open>Lives\<close>, the numeric update of \<open>id_7\<close> to 0 and the numeric update of \<open>id_7\<close>
  to 3; and the three messages are processed without a failure.
\<close>

theorem scenario_start_label_update:
  assumes ok: "atoms_ok R" "resolved R g" and cb: "g_tsfn g"
    and m1: "message m1 = WM_MAME_START g"
    and m2: "message m2 = WM_COPYDATA" "dwData (copydata m2) = 1" "5 \<le> cbData (copydata m2)"
      "decode_label (copydata m2) = Inr (7, ''Lives'')"
    and m3: "message m3 = WM_MAME_UPDATE g" "ucast (wParam m3) = (7::UINT)"
      "sint (ucast (lParam m3) :: 32 word) = 3"
  shows "events_of (effects_after g [m1, m2, m3]) =
           [session_started, Label_update ''id_7'' ''Lives'', Numeric_update ''id_7'' 0,
            Numeric_update ''id_7'' 3]
         \<and> failure_after g [m1, m2, m3] = None"
proof -
  define g1 where "g1 = g\<lparr>g_mameHWND := wParam m1, g_idToName := Map.empty\<rparr>"
  define g2 where "g2 = g1\<lparr>g_idToName := (g_idToName g1)(7 \<mapsto> ''Lives'')\<rparr>"
  have s1: "WndProc g m1 =
              Inr (g1, BlockingCall session_started
                       # [PostMessage HWND_BROADCAST (WM_MAME_REG g) (hwnd m1) 0,
                          PostMessage (wParam m1) (WM_MAME_REG g) (hwnd m1) 0,
                          PostMessage HWND_BROADCAST (WM_MAME_GET_ID g) (hwnd m1) 0,
                          PostMessage (wParam m1) (WM_MAME_GET_ID g) (hwnd m1) 0],
                   Returns 0)"
    using start_step [OF ok m1] cb by (simp add: g1_def pushToJS_def)
  have cb1: "g_tsfn g1" using cb by (simp add: g1_def)
  have s2: "WndProc g1 m2 =
              Inr (g2, [BlockingCall (Label_update ''id_7'' ''Lives''),
                        BlockingCall (Numeric_update ''id_7'' 0)], Returns 1)"
    using label_record_step [OF m2, of g1] cb1
    by (simp add: g2_def pushLabelToJS_def pushToJS_def id_key_7)
  have res2: "resolved R g2" using ok(2) by (simp add: resolved_def g1_def g2_def)
  have upd: "message m3 = WM_MAME_UPDATE g2" using m3(1) by (simp add: g1_def g2_def)
  have s3: "WndProc g2 m3 = Inr (g2, [BlockingCall (Numeric_update ''id_7'' 3)], Returns 0)"
    using atoms_distinct [OF ok(1) res2] upd m3(2,3) cb1
    by (simp add: WndProc_def Let_def pushToJS_def id_key_7 g2_def)
  show ?thesis
    by (simp add: effects_after_Cons effects_after_Nil failure_after_Cons failure_after_Nil
        s1 s2 s3 events_of_simps)
qed

theorem scenario_start_label_update_witness:
  "atoms_ok sample_atoms \<and> resolved sample_atoms active_globals \<and> g_tsfn active_globals
   \<and> message (control_msg 0x10 0xC002 0x30 0) = WM_MAME_START active_globals
   \<and> message (copydata_msg 0x10 (label_packet 7 ''Lives'')) = WM_COPYDATA
   \<and> dwData (copydata (copydata_msg 0x10 (label_packet 7 ''Lives''))) = 1
   \<and> 5 \<le> cbData (copydata (copydata_msg 0x10 (label_packet 7 ''Lives'')))
   \<and> decode_label (copydata (copydata_msg 0x10 (label_packet 7 ''Lives''))) = Inr (7, ''Lives'')
   \<and> message (control_msg 0x10 0xC004 7 3) = WM_MAME_UPDATE active_globals
   \<and> ucast (wParam (control_msg 0x10 0xC004 7 3)) = (7::UINT)
   \<and> sint (ucast (lParam (control_msg 0x10 0xC004 7 3)) :: 32 word) = 3
   \<and> events_of (effects_after active_globals
        [control_msg 0x10 0xC002 0x30 0, copydata_msg 0x10 (label_packet 7 ''Lives''),
         control_msg 0x10 0xC004 7 3]) =
        [session_started, Label_update ''id_7'' ''Lives'', Numeric_update ''id_7'' 0,
         Numeric_update ''id_7'' 3]"
proof -
  have lab: "message (copydata_msg 0x10 (label_packet 7 ''Lives'')) = WM_COPYDATA"
    "dwData (copydata (copydata_msg 0x10 (label_packet 7 ''Lives''))) = 1"
    "5 \<le> cbData (copydata (copydata_msg 0x10 (label_packet 7 ''Lives'')))"
    "decode_label (copydata (copydata_msg 0x10 (label_packet 7 ''Lives''))) = Inr (7, ''Lives'')"
    by code_simp+
  have ctl: "message (control_msg 0x10 0xC002 0x30 0) = WM_MAME_START active_globals"
    "message (control_msg 0x10 0xC004 7 3) = WM_MAME_UPDATE active_globals"
    "ucast (wParam (control_msg 0x10 0xC004 7 3)) = (7::UINT)"
    "sint (ucast (lParam (control_msg 0x10 0xC004 7 3)) :: 32 word) = 3"
    by (simp_all add: control_msg_def active_globals_fields)
  show ?thesis
    using scenario_start_label_update [of sample_atoms active_globals
        "control_msg 0x10 0xC002 0x30 0" "copydata_msg 0x10 (label_packet 7 ''Lives'')"
        "control_msg 0x10 0xC004 7 3"]
      sample_atoms_ok active_globals_resolved active_globals_fields(1) lab ctl
    by simp
qed

section \<open>Decoding an id+label packet\<close>

text \<open>
  The round trip for every identifier and every label without a NUL: the packet
  followed by a terminator and any bytes, declared long enough to cover the terminator,
  decodes to the identifier and the label.
\<close>

lemma decode_encode_label_record:
  assumes "NUL \<notin> set l" and "length l + 5 \<le> unat n"
  shows "decode_label \<lparr>dwData = tag, cbData = n, lpData = encode_label_record i l @ NUL # t\<rparr>
           = Inr (i, l)"
  using assms by (intro decode_label_terminated read_UINT_encode)

text \<open>
  The decoding step on its own, for identifier 42 and \<open>Pac-Man\<close>: with a terminator and
  any trailing bytes, and with no terminator inside the declared eleven bytes. It
  depends on the declared bytes only, and when the memory holds the declared bytes the
  label is the string after the identifier cut at the first NUL or at the declared
  bound.
\<close>

lemma decode_label_roundtrip:
  "(12 \<le> unat n \<longrightarrow>
      decode_label \<lparr>dwData = 1, cbData = n,
                    lpData = encode_label_record 42 ''Pac-Man'' @ NUL # trailing\<rparr>
        = Inr (42, ''Pac-Man''))
   \<and> decode_label \<lparr>dwData = 1, cbData = 11, lpData = encode_label_record 42 ''Pac-Man'' @ beyond\<rparr>
        = Inr (42, ''Pac-Man'')
   \<and> (5 \<le> unat (cbData cds) \<longrightarrow>
        decode_label (cds\<lparr>lpData := take (unat (cbData cds)) (lpData cds)\<rparr>) = decode_label cds)
   \<and> (5 \<le> unat (cbData cds) \<and> unat (cbData cds) \<le> length (lpData cds) \<longrightarrow>
        (\<exists>i. decode_label cds =
           Inr (i, takeWhile (\<lambda>c. c \<noteq> NUL)
                     (take (unat (cbData cds) - 4) (drop 4 (lpData cds))))))"
proof -
  have a: "decode_label \<lparr>dwData = 1, cbData = n,
                    lpData = encode_label_record 42 ''Pac-Man'' @ NUL # trailing\<rparr>
        = Inr (42, ''Pac-Man'')" if "12 \<le> unat n"
    using that by (intro decode_label_terminated pac_man_no_NUL read_UINT_encode) simp
  have b: "decode_label \<lparr>dwData = 1, cbData = 11,
              lpData = encode_label_record 42 ''Pac-Man'' @ beyond\<rparr> = Inr (42, ''Pac-Man'')"
    by (intro decode_label_bounded pac_man_no_NUL read_UINT_encode) simp
  have c: "decode_label (cds\<lparr>lpData := take (unat (cbData cds)) (lpData cds)\<rparr>) = decode_label cds"
    if "5 \<le> unat (cbData cds)"
    using that by (intro decode_label_reads_declared_bytes) simp
  have d: "\<exists>i. decode_label cds =
           Inr (i, takeWhile (\<lambda>c. c \<noteq> NUL)
                     (take (unat (cbData cds) - 4) (drop 4 (lpData cds))))"
    if "5 \<le> unat (cbData cds)" "unat (cbData cds) \<le> length (lpData cds)"
  proof -
    let ?n = "unat (cbData cds)"
    let ?s = "drop 4 (lpData cds)"
    from that have "4 \<le> length (lpData cds)" by simp
    from read_UINT_defined [OF this] obtain i where i: "read_UINT (lpData cds) = Inr i" ..
    from that have "?n - 4 \<le> length ?s" by simp
    from strnlen_in_bounds [OF this]
    have len: "strnlen ?s (?n - 4) = Inr (length (takeWhile (\<lambda>c. c \<noteq> NUL) (take (?n - 4) ?s)))" .
    have "decode_label cds =
            Inr (i, take (length (takeWhile (\<lambda>c. c \<noteq> NUL) (take (?n - 4) ?s))) ?s)"
      unfolding decode_label_def Let_def i len by simp
    then have "decode_label cds = Inr (i, takeWhile (\<lambda>c. c \<noteq> NUL) (take (?n - 4) ?s))"
      by (simp only: take_prefix_self)
    then show ?thesis ..
  qed
  show ?thesis
    by (intro conjI impI a b c d) simp_all
qed


lemma id_key_42: "id_key 42 = ''id_42''"
  by (simp add: id_key_def eval_digits)

text \<open>
  The same buffer under another tag is no label record: with tag 0 it falls to the
  key/value branch, which finds no \<open>=\<close> and ignores it.
\<close>

lemma untagged_packet_ignored:
  "WndProc g (copydata_msg h \<lparr>dwData = 0, cbData = 12,
       lpData = encode_label_record 42 ''Pac-Man'' @ [NUL]\<rparr>) = Inr (g, [], Returns 1)"
  by (simp add: WndProc_def copydata_msg_def read_payload_def find_char_def
      encode_label_record_def NUL_def char_of_def bit_iff_odd drop_bit_eq_div)

text \<open>
  C7. A \<open>WM_COPYDATA\<close> message with the identifier+label tag (\<open>dwData = 1\<close>) whose buffer
  holds identifier 42 and the bytes of \<open>Pac-Man\<close> is decoded by the window procedure to
  exactly 42 and \<open>Pac-Man\<close>: the table gets \<open>Pac-Man\<close> at 42 and the callback, when bound,
  gets the label update of \<open>id_42\<close> to \<open>Pac-Man\<close> and the seeding numeric update. This
  holds with a terminator and any trailing bytes after it, whatever declared length
  covers the terminator, and also with no terminator inside the declared eleven bytes,
  whatever lies in memory beyond them. The window procedure reads the declared bytes
  only: on a tagged message of at least five bytes, cutting the memory at the declared
  length changes nothing; and when the memory holds the declared bytes the message is
  processed without a failure as the record whose label is the string after the
  identifier cut at the first NUL or at the declared bound.
\<close>

theorem label_record_roundtrip:
  "(12 \<le> unat n \<longrightarrow>
      WndProc g (copydata_msg h \<lparr>dwData = 1, cbData = n,
                   lpData = encode_label_record 42 ''Pac-Man'' @ NUL # trailing\<rparr>)
        = Inr (g\<lparr>g_idToName := (g_idToName g)(42 \<mapsto> ''Pac-Man'')\<rparr>,
               (if g_tsfn g
                then [BlockingCall (Label_update ''id_42'' ''Pac-Man''),
                      BlockingCall (Numeric_update ''id_42'' 0)]
                else []),
               Returns 1))
   \<and> WndProc g (copydata_msg h \<lparr>dwData = 1, cbData = 11,
                   lpData = encode_label_record 42 ''Pac-Man'' @ beyond\<rparr>)
        = Inr (g\<lparr>g_idToName := (g_idToName g)(42 \<mapsto> ''Pac-Man'')\<rparr>,
               (if g_tsfn g
                then [BlockingCall (Label_update ''id_42'' ''Pac-Man''),
                      BlockingCall (Numeric_update ''id_42'' 0)]
                else []),
               Returns 1)
   \<and> (message m = WM_COPYDATA \<and> dwData (copydata m) = 1 \<and> 5 \<le> cbData (copydata m) \<longrightarrow>
        WndProc g (m\<lparr>copydata :=
             (copydata m)\<lparr>lpData := take (unat (cbData (copydata m))) (lpData (copydata m))\<rparr>\<rparr>)
          = WndProc g m)
   \<and> (message m = WM_COPYDATA \<and> dwData (copydata m) = 1 \<and> 5 \<le> cbData (copydata m)
        \<and> unat (cbData (copydata m)) \<le> length (lpData (copydata m)) \<longrightarrow>
        (\<exists>i. read_UINT (lpData (copydata m)) = Inr i
           \<and> decode_label (copydata m) =
               Inr (i, takeWhile (\<lambda>c. c \<noteq> NUL)
                        (take (unat (cbData (copydata m)) - 4) (drop 4 (lpData (copydata m)))))
           \<and> WndProc g m =
               (let L = takeWhile (\<lambda>c. c \<noteq> NUL)
                          (take (unat (cbData (copydata m)) - 4) (drop 4 (lpData (copydata m))))
                in if i = 0 then
                     Inr (g\<lparr>g_currentRomName := L\<rparr>,
                          pushStringToJS g ''__GAME_NAME__'' L @ pushToJS g ''__GAME_NAME__'' 0,
                          Returns 1)
                   else
                     Inr (g\<lparr>g_idToName := (g_idToName g)(i \<mapsto> L)\<rparr>,
                          pushLabelToJS g (id_key i) L @ pushToJS g (id_key i) 0,
                          Returns 1))))"
proof -
  let ?stored = "Inr (g\<lparr>g_idToName := (g_idToName g)(42 \<mapsto> ''Pac-Man'')\<rparr>,
               (if g_tsfn g
                then [BlockingCall (Label_update ''id_42'' ''Pac-Man''),
                      BlockingCall (Numeric_update ''id_42'' 0)]
                else []),
               Returns 1) :: failure + (globals \<times> effect list \<times> LRESULT)"
  have stored: "WndProc g (copydata_msg h cds) = ?stored"
    if "dwData cds = 1" "5 \<le> cbData cds" "decode_label cds = Inr (42, ''Pac-Man'')" for cds
    using label_record_step [of "copydata_msg h cds" 42 "''Pac-Man''" g] that
    by (simp add: copydata_msg_def pushLabelToJS_def pushToJS_def id_key_42)
  have a: "WndProc g (copydata_msg h \<lparr>dwData = 1, cbData = n,
                   lpData = encode_label_record 42 ''Pac-Man'' @ NUL # trailing\<rparr>) = ?stored"
    if n: "12 \<le> unat n"
  proof (rule stored)
    show "dwData \<lparr>dwData = 1, cbData = n,
                   lpData = encode_label_record 42 ''Pac-Man'' @ NUL # trailing\<rparr> = 1"
      by simp
    show "5 \<le> cbData \<lparr>dwData = 1, cbData = n,
                   lpData = encode_label_record 42 ''Pac-Man'' @ NUL # trailing\<rparr>"
      using n by (simp add: word_le_nat_alt)
    show "decode_label \<lparr>dwData = 1, cbData = n,
                   lpData = encode_label_record 42 ''Pac-Man'' @ NUL # trailing\<rparr>
            = Inr (42, ''Pac-Man'')"
      using n by (intro decode_label_terminated pac_man_no_NUL read_UINT_encode) simp
  qed
  have b: "WndProc g (copydata_msg h \<lparr>dwData = 1, cbData = 11,
                   lpData = encode_label_record 42 ''Pac-Man'' @ beyond\<rparr>) = ?stored"
  proof (rule stored)
    show "dwData \<lparr>dwData = 1, cbData = 11,
                   lpData = encode_label_record 42 ''Pac-Man'' @ beyond\<rparr> = 1"
      by simp
    show "5 \<le> cbData \<lparr>dwData = 1, cbData = 11,
                   lpData = encode_label_record 42 ''Pac-Man'' @ beyond\<rparr>"
      by simp
    show "decode_label \<lparr>dwData = 1, cbData = 11,
                   lpData = encode_label_record 42 ''Pac-Man'' @ beyond\<rparr>
            = Inr (42, ''Pac-Man'')"
      by (intro decode_label_bounded pac_man_no_NUL read_UINT_encode) simp
  qed
  have c: "WndProc g (m\<lparr>copydata :=
             (copydata m)\<lparr>lpData := take (unat (cbData (copydata m))) (lpData (copydata m))\<rparr>\<rparr>)
          = WndProc g m"
    if "message m = WM_COPYDATA \<and> dwData (copydata m) = 1 \<and> 5 \<le> cbData (copydata m)"
  proof -
    from that have "4 \<le> unat (cbData (copydata m))"
      by (simp add: word_le_nat_alt)
    from decode_label_reads_declared_bytes [OF this] that show ?thesis
      by (simp add: WndProc_def Let_def)
  qed
  have d: "\<exists>i. read_UINT (lpData (copydata m)) = Inr i
           \<and> decode_label (copydata m) =
               Inr (i, takeWhile (\<lambda>c. c \<noteq> NUL)
                        (take (unat (cbData (copydata m)) - 4) (drop 4 (lpData (copydata m)))))
           \<and> WndProc g m =
               (let L = takeWhile (\<lambda>c. c \<noteq> NUL)
                          (take (unat (cbData (copydata m)) - 4) (drop 4 (lpData (copydata m))))
                in if i = 0 then
                     Inr (g\<lparr>g_currentRomName := L\<rparr>,
                          pushStringToJS g ''__GAME_NAME__'' L @ pushToJS g ''__GAME_NAME__'' 0,
                          Returns 1)
                   else
                     Inr (g\<lparr>g_idToName := (g_idToName g)(i \<mapsto> L)\<rparr>,
                          pushLabelToJS g (id_key i) L @ pushToJS g (id_key i) 0,
                          Returns 1))"
    if h: "message m = WM_COPYDATA \<and> dwData (copydata m) = 1 \<and> 5 \<le> cbData (copydata m)
        \<and> unat (cbData (copydata m)) \<le> length (lpData (copydata m))"
  proof -
    define L where "L = takeWhile (\<lambda>c. c \<noteq> NUL)
                          (take (unat (cbData (copydata m)) - 4) (drop 4 (lpData (copydata m))))"
    from h have five: "5 \<le> unat (cbData (copydata m))"
      by (simp add: word_le_nat_alt)
    with h have "4 \<le> length (lpData (copydata m))" by simp
    from read_UINT_defined [OF this]
    obtain i where i: "read_UINT (lpData (copydata m)) = Inr i" ..
    from h have "unat (cbData (copydata m)) \<le> length (lpData (copydata m))" by simp
    then have "unat (cbData (copydata m)) - 4 \<le> length (drop 4 (lpData (copydata m)))"
      by (simp add: diff_le_mono)
    from strnlen_in_bounds [OF this]
    have "decode_label (copydata m) =
            Inr (i, take (length L) (drop 4 (lpData (copydata m))))"
      unfolding decode_label_def Let_def i L_def by simp
    then have dec: "decode_label (copydata m) = Inr (i, L)"
      unfolding L_def by (simp only: take_prefix_self)
    from h have m: "message m = WM_COPYDATA" "dwData (copydata m) = 1"
      "5 \<le> cbData (copydata m)" by simp_all
    note step = label_record_step [OF m dec, of g]
    from i dec step show ?thesis
      unfolding L_def [symmetric] Let_def by blast
  qed
  show ?thesis
    by (intro conjI impI a b c d) simp_all
qed

lemma padded_msg_fields:
  "message (copydata_msg 0x10 padded_packet) = WM_COPYDATA"
  "dwData (copydata (copydata_msg 0x10 padded_packet)) = 1"
  "5 \<le> cbData (copydata (copydata_msg 0x10 padded_packet))"
  "unat (cbData (copydata (copydata_msg 0x10 padded_packet)))
     \<le> length (lpData (copydata (copydata_msg 0x10 padded_packet)))"
  "read_UINT (lpData (copydata (copydata_msg 0x10 padded_packet))) = Inr 42"
  "takeWhile (\<lambda>c. c \<noteq> NUL)
     (take (unat (cbData (copydata (copydata_msg 0x10 padded_packet))) - 4)
        (drop 4 (lpData (copydata (copydata_msg 0x10 padded_packet))))) = ''Pac''"
  by code_simp+

theorem label_record_roundtrip_witness:
  "12 \<le> unat (16 :: DWORD)
   \<and> WndProc active_globals (copydata_msg 0x10 \<lparr>dwData = 1, cbData = 16,
         lpData = encode_label_record 42 ''Pac-Man'' @ NUL # ''junk''\<rparr>)
       = Inr (active_globals\<lparr>g_idToName := (g_idToName active_globals)(42 \<mapsto> ''Pac-Man'')\<rparr>,
              [BlockingCall (Label_update ''id_42'' ''Pac-Man''),
               BlockingCall (Numeric_update ''id_42'' 0)],
              Returns 1)
   \<and> WndProc active_globals (copydata_msg 0x10 \<lparr>dwData = 1, cbData = 11,
         lpData = encode_label_record 42 ''Pac-Man'' @ ''junk''\<rparr>)
       = Inr (active_globals\<lparr>g_idToName := (g_idToName active_globals)(42 \<mapsto> ''Pac-Man'')\<rparr>,
              [BlockingCall (Label_update ''id_42'' ''Pac-Man''),
               BlockingCall (Numeric_update ''id_42'' 0)],
              Returns 1)
   \<and> message (copydata_msg 0x10 padded_packet) = WM_COPYDATA
   \<and> dwData (copydata (copydata_msg 0x10 padded_packet)) = 1
   \<and> 5 \<le> cbData (copydata (copydata_msg 0x10 padded_packet))
   \<and> unat (cbData (copydata (copydata_msg 0x10 padded_packet)))
        \<le> length (lpData (copydata (copydata_msg 0x10 padded_packet)))
   \<and> WndProc active_globals
        ((copydata_msg 0x10 padded_packet)\<lparr>copydata :=
           (copydata (copydata_msg 0x10 padded_packet))\<lparr>lpData :=
              take (unat (cbData (copydata (copydata_msg 0x10 padded_packet))))
                (lpData (copydata (copydata_msg 0x10 padded_packet)))\<rparr>\<rparr>)
       = WndProc active_globals (copydata_msg 0x10 padded_packet)
   \<and> decode_label (copydata (copydata_msg 0x10 padded_packet)) = Inr (42, ''Pac'')
   \<and> WndProc active_globals (copydata_msg 0x10 padded_packet)
       = Inr (active_globals\<lparr>g_idToName := (g_idToName active_globals)(42 \<mapsto> ''Pac'')\<rparr>,
              [BlockingCall (Label_update ''id_42'' ''Pac''),
               BlockingCall (Numeric_update ''id_42'' 0)],
              Returns 1)"
  using label_record_roundtrip [where n = 16 and g = active_globals and h = "0x10"
          and trailing = "''junk''" and beyond = "''junk''"
          and m = "copydata_msg 0x10 padded_packet"]
    padded_msg_fields
  by (auto simp: active_globals_fields(1) Let_def pushLabelToJS_def pushToJS_def id_key_42)

section \<open>One name for two messages\<close>

text \<open>
  C10. \<open>messagePump\<close> resolves \<open>WM_MAME_REG\<close> and \<open>WM_MAME_REGISTER\<close> from the same
  name, so the two identifiers are equal. The register request that a session start
  posts to the broadcast handle is among the messages the listener's own window
  receives back, and the window procedure handles it in the register branch with
  identifier 0: it posts a request for the label of identifier 0 to the broadcast
  handle and to the source.
\<close>

theorem register_request_is_register_signal:
  assumes ok: "atoms_ok R" "resolved R g" and m: "message m = WM_MAME_START g"
  shows "WM_MAME_REG (messagePump_resolve R g0) = WM_MAME_REGISTER (messagePump_resolve R g0)
       \<and> WM_MAME_REG g = WM_MAME_REGISTER g
       \<and> PostMessage HWND_BROADCAST (WM_MAME_REGISTER g) (hwnd m) 0 \<in> set (effects_after g [m])
       \<and> control_msg (hwnd m) (WM_MAME_REGISTER g) (hwnd m) 0
           \<in> set (own_window_receives (hwnd m) (effects_after g [m]))
       \<and> WndProc (state_after g [m]) (control_msg (hwnd m) (WM_MAME_REGISTER g) (hwnd m) 0) =
           Inr (state_after g [m],
                [PostMessage HWND_BROADCAST (WM_MAME_GET_ID g) (hwnd m) 0,
                 PostMessage (wParam m) (WM_MAME_GET_ID g) (hwnd m) 0],
                Returns 0)"
proof -
  define g1 where "g1 = g\<lparr>g_mameHWND := wParam m, g_idToName := Map.empty\<rparr>"
  have same: "WM_MAME_REG g = WM_MAME_REGISTER g"
    by (rule atoms_distinct(22) [OF ok])
  have s1: "state_after g [m] = g1"
    using start_step [OF ok m] by (simp add: state_after_Cons state_after_Nil g1_def)
  have e1: "effects_after g [m] =
              pushToJS g ''__MAME_START__'' 1
              @ [PostMessage HWND_BROADCAST (WM_MAME_REGISTER g) (hwnd m) 0,
                 PostMessage (wParam m) (WM_MAME_REGISTER g) (hwnd m) 0,
                 PostMessage HWND_BROADCAST (WM_MAME_GET_ID g) (hwnd m) 0,
                 PostMessage (wParam m) (WM_MAME_GET_ID g) (hwnd m) 0]"
    using start_step [OF ok m] same by (simp add: effects_after_Cons effects_after_Nil)
  have res1: "resolved R g1" using ok(2) by (simp add: resolved_def g1_def)
  have handled: "WndProc g1 (control_msg (hwnd m) (WM_MAME_REGISTER g) (hwnd m) 0) =
           Inr (g1,
                [PostMessage HWND_BROADCAST (WM_MAME_GET_ID g) (hwnd m) 0,
                 PostMessage (wParam m) (WM_MAME_GET_ID g) (hwnd m) 0],
                Returns 0)"
    using atoms_distinct [OF ok(1) res1]
    by (simp add: WndProc_def Let_def control_msg_def g1_def)
  have received: "control_msg (hwnd m) (WM_MAME_REGISTER g) (hwnd m) 0
           \<in> set (own_window_receives (hwnd m) (effects_after g [m]))"
    by (simp add: e1 own_window_receives_def pushToJS_def)
  have posted: "PostMessage HWND_BROADCAST (WM_MAME_REGISTER g) (hwnd m) 0 \<in> set (effects_after g [m])"
    by (simp add: e1)
  have names: "WM_MAME_REG (messagePump_resolve R g0) = WM_MAME_REGISTER (messagePump_resolve R g0)"
    by (simp add: messagePump_resolve_def)
  from names same posted received handled s1 show ?thesis by simp
qed

theorem register_request_is_register_signal_witness:
  "atoms_ok sample_atoms \<and> resolved sample_atoms active_globals
   \<and> message (control_msg 0x10 0xC002 0x30 0) = WM_MAME_START active_globals
   \<and> WM_MAME_REG active_globals = WM_MAME_REGISTER active_globals
   \<and> WM_MAME_REGISTER active_globals = 0xC001
   \<and> PostMessage HWND_BROADCAST 0xC001 0x10 0
        \<in> set (effects_after active_globals [control_msg 0x10 0xC002 0x30 0])
   \<and> control_msg 0x10 0xC001 0x10 0
        \<in> set (own_window_receives 0x10
              (effects_after active_globals [control_msg 0x10 0xC002 0x30 0]))
   \<and> WndProc (state_after active_globals [control_msg 0x10 0xC002 0x30 0])
        (control_msg 0x10 0xC001 0x10 0) =
       Inr (state_after active_globals [control_msg 0x10 0xC002 0x30 0],
            [PostMessage HWND_BROADCAST 0xC005 0x10 0, PostMessage 0x30 0xC005 0x10 0],
            Returns 0)"
  using register_request_is_register_signal
          [of sample_atoms active_globals "control_msg 0x10 0xC002 0x30 0" active_globals]
    sample_atoms_ok active_globals_resolved
  by (simp add: active_globals_fields control_msg_def)

section \<open>Stopping a listener that is not running\<close>

text \<open>
  With no thread to join, \<open>StopListener\<close> makes no join: it clears the run flag, posts
  \<open>WM_QUIT\<close> through the handle of a thread that is not there, and calls \<open>Release\<close>
  whenever the handle of the thread-safe function is non-empty.
\<close>

lemma stop_without_thread:
  assumes "\<not> g_msgThread_joinable s"
  shows "StopListener s =
           (Napi_undefined,
            (if tsfn_nonempty (g_tsfn_handle s)
             then s\<lparr>g_running := False, g_tsfn_handle := Tsfn_released\<rparr>
             else s\<lparr>g_running := False\<rparr>),
            PostThreadMessage_WM_QUIT False
            # (if tsfn_nonempty (g_tsfn_handle s) then [Tsfn_Release (g_tsfn_handle s)] else []))"
  using assms by (simp add: StopListener_def Let_def)

text \<open>
  C9. The claim: \<open>stopListener\<close> with no running listening context, called twice in a
  row or without a start, does not hang, does not throw or fail, and is a no-op when
  there is nothing to join. The theorem evaluates the entry points. Without a start,
  a stop makes no join and no release; it clears the run flag and posts \<open>WM_QUIT\<close>
  through the empty thread handle. After a start, the first stop posts, joins and
  releases the thread-safe function. The second stop makes no join, so it cannot
  block on one, but it is not a no-op: \<open>g_tsfn\<close> was never reset, the guard
  \<open>if (g_tsfn)\<close> still holds, and \<open>Release\<close> is called again on the function that the
  first stop already released.
\<close>

theorem redundant_stop_releases_again:
  "StopListener initial_lifecycle =
     (Napi_undefined, initial_lifecycle\<lparr>g_running := False\<rparr>, [PostThreadMessage_WM_QUIT False])
   \<and> StartListener True initial_lifecycle = (Napi_true, running_lifecycle, [Tsfn_New, Thread_start])
   \<and> StopListener running_lifecycle =
       (Napi_undefined, stopped_lifecycle,
        [PostThreadMessage_WM_QUIT True, Thread_join, Tsfn_Release Tsfn_live])
   \<and> StopListener stopped_lifecycle =
       (Napi_undefined, stopped_lifecycle,
        [PostThreadMessage_WM_QUIT False, Tsfn_Release Tsfn_released])"
  by (simp add: StopListener_def StartListener_def initial_lifecycle_def running_lifecycle_def
      stopped_lifecycle_def tsfn_nonempty_def Let_def)

end
